theory Spec2Isabelle
  imports Complex_Main "HOL-Library.Word"
begin

section \<open>Data model of the OLAP engine\<close>

text \<open>
  Fixed-width integers of the source are words: \<open>int32_t\<close> and \<open>uint32_t\<close> are
  \<open>32 word\<close>, \<open>int64_t\<close> and \<open>size_t\<close> are \<open>64 word\<close>. A signed field is read with
  \<open>sint\<close> and compared with \<open><s\<close>; an unsigned one is read with \<open>unat\<close> and
  compared with \<open><\<close>.
\<close>

type_synonym int32_t = "32 word"
type_synonym uint32_t = "32 word"
type_synonym int64_t = "64 word"
type_synonym size_t = "64 word"

subsection \<open>TabletInfo\<close>

text \<open>
  \<open>TTabletId\<close> and \<open>TSchemaHash\<close> are the 64-bit and 32-bit signed integers of the
  generated interface types.
\<close>

record TabletInfo =
  tablet_id :: int64_t
  schema_hash :: int32_t

definition TabletInfo_ctor :: "int64_t \<Rightarrow> int32_t \<Rightarrow> TabletInfo" where
  "TabletInfo_ctor in_tablet_id in_schema_hash =
     \<lparr>tablet_id = in_tablet_id, schema_hash = in_schema_hash\<rparr>"

text \<open>\<open>TabletInfo::operator<\<close>.\<close>

definition TabletInfo_less :: "TabletInfo \<Rightarrow> TabletInfo \<Rightarrow> bool" where
  "TabletInfo_less l right =
     (if tablet_id l \<noteq> tablet_id right
      then tablet_id l <s tablet_id right
      else schema_hash l <s schema_hash right)"

subsection \<open>RowSetEntity and VersionEntity\<close>

text \<open>
  A \<open>KeyRange\<close> is a pair of \<open>WrapperField\<close> pointers; the pointers are kept as
  addresses. The constructor's \<open>column_statistics\<close> argument is a pointer to a vector
  that may be null: \<open>None\<close> is the null pointer, \<open>Some v\<close> points to the vector \<open>v\<close>.
\<close>

type_synonym KeyRange = "64 word \<times> 64 word"

record RowSetEntity =
  rowset_id :: int32_t
  num_segments :: int32_t
  num_rows :: int64_t
  data_size :: size_t
  index_size :: size_t
  empty_flag :: bool
  key_ranges :: "KeyRange list"

definition RowSetEntity_ctor ::
  "int32_t \<Rightarrow> int32_t \<Rightarrow> int64_t \<Rightarrow> size_t \<Rightarrow> size_t \<Rightarrow> bool \<Rightarrow> KeyRange list option
     \<Rightarrow> RowSetEntity" where
  "RowSetEntity_ctor rid nseg nrows dsize isize emp column_statistics =
     (let this = \<lparr>rowset_id = rid, num_segments = nseg, num_rows = nrows,
                  data_size = dsize, index_size = isize, empty_flag = emp,
                  key_ranges = []\<rparr>
      in case column_statistics of
           Some stats \<Rightarrow> this\<lparr>key_ranges := stats\<rparr>
         | None \<Rightarrow> this)"

type_synonym Version = "int64_t \<times> int64_t"

record VersionEntity =
  version :: Version
  version_hash :: int64_t
  rowset_vec :: "RowSetEntity list"

definition VersionEntity_ctor :: "Version \<Rightarrow> int64_t \<Rightarrow> VersionEntity" where
  "VersionEntity_ctor v vh = \<lparr>version = v, version_hash = vh, rowset_vec = []\<rparr>"

text \<open>\<open>VersionEntity::add_rowset_entity\<close>: \<open>push_back\<close> on the vector.\<close>

definition add_rowset_entity :: "VersionEntity \<Rightarrow> RowSetEntity \<Rightarrow> VersionEntity" where
  "add_rowset_entity this rowset = this\<lparr>rowset_vec := rowset_vec this @ [rowset]\<rparr>"

section \<open>Background workers of the storage engine\<close>

text \<open>
  The configuration variables (\<open>config::file_descriptor_cache_clean_interval\<close> and the
  others) are declared outside the sources considered here. They are signed 32-bit
  integers: the specification lets a configured interval be zero or negative, the
  warnings print them with \<open>%d\<close>, and \<open>_start_bg_worker\<close> reads the thread counts
  into \<open>int32_t\<close>. Each callback receives its configured value as a parameter of type
  \<open>int32_t\<close>. The initialisation \<open>uint32_t interval = config::...\<close> keeps the 32 bits
  and reads them as unsigned from then on, so every comparison on \<open>interval\<close> below is
  the unsigned order \<open>\<le>\<close> of \<open>32 word\<close>.

  What a worker does is a trace of events. The loops are \<open>while (true)\<close>; a trace
  holds the events of the first \<open>n\<close> iterations.
\<close>

datatype event =
    Sleep uint32_t
  | USleep uint32_t
  | StartCleanFdCache
  | ApplySystemCgroup
  | PerformBaseCompaction
  | PerformCumulativeCompaction
  | StartTrashSweep
  | StartDiskStatMonitor
  | StartDeleteUnusedIndex
  | UndefinedConversion

fun is_sleep :: "event \<Rightarrow> bool" where
  "is_sleep (Sleep s) = True"
| "is_sleep (USleep us) = True"
| "is_sleep e = False"

fun is_action :: "event \<Rightarrow> bool" where
  "is_action StartCleanFdCache = True"
| "is_action PerformBaseCompaction = True"
| "is_action PerformCumulativeCompaction = True"
| "is_action StartTrashSweep = True"
| "is_action StartDiskStatMonitor = True"
| "is_action StartDeleteUnusedIndex = True"
| "is_action e = False"

text \<open>
  A sleep occurs before the first unit-of-work action of a trace: the events in front
  of the first action contain a sleep.
\<close>

definition sleep_before_action :: "event list \<Rightarrow> bool" where
  "sleep_before_action tr = list_ex is_sleep (takeWhile (\<lambda>e. \<not> is_action e) tr)"

subsection \<open>File descriptor cache cleaning\<close>

definition fd_cache_clean_interval :: "int32_t \<Rightarrow> uint32_t" where
  "fd_cache_clean_interval file_descriptor_cache_clean_interval =
     (let interval = file_descriptor_cache_clean_interval
      in if interval \<le> 0 then 3600 else interval)"

fun fd_cache_clean_loop :: "uint32_t \<Rightarrow> nat \<Rightarrow> event list" where
  "fd_cache_clean_loop interval 0 = []"
| "fd_cache_clean_loop interval (Suc n) =
     Sleep interval # StartCleanFdCache # fd_cache_clean_loop interval n"

definition fd_cache_clean_callback :: "int32_t \<Rightarrow> nat \<Rightarrow> event list" where
  "fd_cache_clean_callback cfg n = fd_cache_clean_loop (fd_cache_clean_interval cfg) n"

subsection \<open>Base compaction\<close>

definition base_compaction_interval :: "int32_t \<Rightarrow> uint32_t" where
  "base_compaction_interval base_compaction_check_interval_seconds =
     (let interval = base_compaction_check_interval_seconds
      in if interval \<le> 0 then 1 else interval)"

text \<open>
  \<open>usleep(interval * 1000000)\<close>: the literal is converted to \<open>unsigned int\<close>, the
  product is taken in 32-bit unsigned arithmetic and handed to \<open>usleep\<close>.
\<close>

definition usleep_arg :: "uint32_t \<Rightarrow> uint32_t" where
  "usleep_arg interval = interval * 1000000"

fun base_compaction_loop :: "uint32_t \<Rightarrow> nat \<Rightarrow> event list" where
  "base_compaction_loop interval 0 = []"
| "base_compaction_loop interval (Suc n) =
     ApplySystemCgroup # PerformBaseCompaction # USleep (usleep_arg interval)
       # base_compaction_loop interval n"

definition base_compaction_thread_callback :: "int32_t \<Rightarrow> nat \<Rightarrow> event list" where
  "base_compaction_thread_callback cfg n =
     base_compaction_loop (base_compaction_interval cfg) n"

subsection \<open>Disk state monitor\<close>

definition disk_stat_monitor_interval :: "int32_t \<Rightarrow> uint32_t" where
  "disk_stat_monitor_interval cfg =
     (let interval = cfg in if interval \<le> 0 then 1 else interval)"

fun disk_stat_monitor_loop :: "uint32_t \<Rightarrow> nat \<Rightarrow> event list" where
  "disk_stat_monitor_loop interval 0 = []"
| "disk_stat_monitor_loop interval (Suc n) =
     StartDiskStatMonitor # Sleep interval # disk_stat_monitor_loop interval n"

definition disk_stat_monitor_thread_callback :: "int32_t \<Rightarrow> nat \<Rightarrow> event list" where
  "disk_stat_monitor_thread_callback cfg n =
     disk_stat_monitor_loop (disk_stat_monitor_interval cfg) n"

subsection \<open>Unused index cleanup\<close>

definition unused_index_monitor_interval :: "int32_t \<Rightarrow> uint32_t" where
  "unused_index_monitor_interval cfg =
     (let interval = cfg in if interval \<le> 0 then 1 else interval)"

fun unused_index_loop :: "uint32_t \<Rightarrow> nat \<Rightarrow> event list" where
  "unused_index_loop interval 0 = []"
| "unused_index_loop interval (Suc n) =
     StartDeleteUnusedIndex # Sleep interval # unused_index_loop interval n"

definition unused_index_thread_callback :: "int32_t \<Rightarrow> nat \<Rightarrow> event list" where
  "unused_index_thread_callback cfg n =
     unused_index_loop (unused_index_monitor_interval cfg) n"

subsection \<open>Cumulative compaction\<close>

definition cumulative_compaction_interval :: "int32_t \<Rightarrow> uint32_t" where
  "cumulative_compaction_interval cumulative_compaction_check_interval_seconds =
     (let interval = cumulative_compaction_check_interval_seconds
      in if interval \<le> 0 then 1 else interval)"

fun cumulative_compaction_loop :: "uint32_t \<Rightarrow> nat \<Rightarrow> event list" where
  "cumulative_compaction_loop interval 0 = []"
| "cumulative_compaction_loop interval (Suc n) =
     ApplySystemCgroup # PerformCumulativeCompaction # USleep (usleep_arg interval)
       # cumulative_compaction_loop interval n"

definition cumulative_compaction_thread_callback :: "int32_t \<Rightarrow> nat \<Rightarrow> event list" where
  "cumulative_compaction_thread_callback cfg n =
     cumulative_compaction_loop (cumulative_compaction_interval cfg) n"

subsection \<open>Garbage sweeper\<close>

text \<open>
  The start-up validation of the two sweep bounds. The result is the pair
  \<open>(max_interval, min_interval)\<close> the loop runs with.
\<close>

definition garbage_sweep_validate :: "int32_t \<Rightarrow> int32_t \<Rightarrow> uint32_t \<times> uint32_t" where
  "garbage_sweep_validate max_garbage_sweep_interval min_garbage_sweep_interval =
     (let max_interval = max_garbage_sweep_interval;
          min_interval = min_garbage_sweep_interval
      in if \<not> (max_interval \<ge> min_interval \<and> min_interval > 0)
         then (let min_interval = 1;
                   max_interval = (if max_interval \<ge> min_interval then max_interval
                                   else min_interval)
               in (max_interval, min_interval))
         else (max_interval, min_interval))"






section \<open>Results on the data model\<close>

lemma TabletInfo_less_irrefl: "\<not> TabletInfo_less a a"
  by (simp add: TabletInfo_less_def)

lemma TabletInfo_less_asym: "TabletInfo_less a b \<Longrightarrow> \<not> TabletInfo_less b a"
  by (auto simp: TabletInfo_less_def split: if_splits)

lemma TabletInfo_less_trans:
  "TabletInfo_less a b \<Longrightarrow> TabletInfo_less b c \<Longrightarrow> TabletInfo_less a c"
  by (auto simp: TabletInfo_less_def split: if_splits)

lemma TabletInfo_less_total: "TabletInfo_less a b \<or> TabletInfo_less b a \<or> a = b"
proof (cases "tablet_id a = tablet_id b")
  case False
  then show ?thesis
    using signed.less_linear [of "tablet_id a" "tablet_id b"]
    by (auto simp: TabletInfo_less_def)
next
  case True
  show ?thesis
  proof (cases "schema_hash a = schema_hash b")
    case False
    then show ?thesis
      using True signed.less_linear [of "schema_hash a" "schema_hash b"]
      by (auto simp: TabletInfo_less_def)
  next
    case sh: True
    have "a = b" using True sh by simp
    then show ?thesis by simp
  qed
qed

lemma rowset_vec_foldl:
  "rowset_vec (foldl add_rowset_entity ve rs) = rowset_vec ve @ rs"
  by (induction rs arbitrary: ve) (simp_all add: add_rowset_entity_def)

lemma version_foldl:
  "version (foldl add_rowset_entity ve rs) = version ve \<and>
   version_hash (foldl add_rowset_entity ve rs) = version_hash ve"
  by (induction rs arbitrary: ve) (simp_all add: add_rowset_entity_def)

text \<open>
  C7: \<open>TabletInfo::operator<\<close> is a strict total order that compares \<open>tablet_id\<close>
  first and \<open>schema_hash\<close> as tiebreak, and it is consistent with equality of the two
  fields: it is irreflexive and transitive, and of \<open>a < b\<close>, \<open>b < a\<close>, \<open>a = b\<close> exactly
  one holds. \<open>TabletInfo(5,2) < TabletInfo(5,3) < TabletInfo(6,0)\<close>, and of two values
  with the same fields neither is less than the other.
\<close>

theorem TabletInfo_less_strict_total_order:
  "\<not> TabletInfo_less a a
   \<and> (TabletInfo_less a b \<and> TabletInfo_less b c \<longrightarrow> TabletInfo_less a c)
   \<and> ((TabletInfo_less a b \<and> \<not> TabletInfo_less b a \<and> a \<noteq> b)
      \<or> (\<not> TabletInfo_less a b \<and> TabletInfo_less b a \<and> a \<noteq> b)
      \<or> (\<not> TabletInfo_less a b \<and> \<not> TabletInfo_less b a \<and> a = b))
   \<and> (TabletInfo_less a b \<longleftrightarrow>
        sint (tablet_id a) < sint (tablet_id b)
      \<or> (tablet_id a = tablet_id b \<and> sint (schema_hash a) < sint (schema_hash b)))
   \<and> TabletInfo_less (TabletInfo_ctor 5 2) (TabletInfo_ctor 5 3)
   \<and> TabletInfo_less (TabletInfo_ctor 5 3) (TabletInfo_ctor 6 0)
   \<and> \<not> TabletInfo_less (TabletInfo_ctor t s) (TabletInfo_ctor t s)"
proof -
  have tri: "(TabletInfo_less a b \<and> \<not> TabletInfo_less b a \<and> a \<noteq> b)
      \<or> (\<not> TabletInfo_less a b \<and> TabletInfo_less b a \<and> a \<noteq> b)
      \<or> (\<not> TabletInfo_less a b \<and> \<not> TabletInfo_less b a \<and> a = b)"
    using TabletInfo_less_total [of a b] TabletInfo_less_asym [of a b]
      TabletInfo_less_asym [of b a] TabletInfo_less_irrefl [of a]
    by blast
  have lex: "TabletInfo_less a b \<longleftrightarrow>
        sint (tablet_id a) < sint (tablet_id b)
      \<or> (tablet_id a = tablet_id b \<and> sint (schema_hash a) < sint (schema_hash b))"
    by (auto simp: TabletInfo_less_def word_sless_alt)
  have ex: "TabletInfo_less (TabletInfo_ctor 5 2) (TabletInfo_ctor 5 3)
      \<and> TabletInfo_less (TabletInfo_ctor 5 3) (TabletInfo_ctor 6 0)"
    by (simp add: TabletInfo_less_def TabletInfo_ctor_def word_sless_alt)
  show ?thesis
    using tri lex ex TabletInfo_less_irrefl TabletInfo_less_trans [of a b c]
    by blast
qed

theorem TabletInfo_less_strict_total_order_witness:
  "TabletInfo_less (TabletInfo_ctor 5 2) (TabletInfo_ctor 5 3)
   \<and> TabletInfo_less (TabletInfo_ctor 5 3) (TabletInfo_ctor 6 0)
   \<and> TabletInfo_less (TabletInfo_ctor 5 2) (TabletInfo_ctor 6 0)
   \<and> \<not> TabletInfo_less (TabletInfo_ctor 5 3) (TabletInfo_ctor 5 2)
   \<and> TabletInfo_ctor 5 2 \<noteq> TabletInfo_ctor 5 3"
  using TabletInfo_less_strict_total_order
    [of "TabletInfo_ctor 5 2" "TabletInfo_ctor 5 3" "TabletInfo_ctor 6 0" 0 0]
  by blast

text \<open>
  C8: after \<open>add_rowset_entity\<close> has been called with \<open>R1, ..., Rn\<close> in that order on
  a constructed \<open>VersionEntity\<close>, \<open>rowset_vec\<close> is exactly \<open>[R1, ..., Rn]\<close>: the calls
  append at the end, in order, and keep duplicates. On any \<open>VersionEntity\<close> the calls
  add \<open>[R1, ..., Rn]\<close> behind what \<open>rowset_vec\<close> held, and leave \<open>version\<close> and
  \<open>version_hash\<close> as they were.
\<close>

theorem add_rowset_entity_appends:
  "rowset_vec (foldl add_rowset_entity (VersionEntity_ctor v vh) rs) = rs
   \<and> rowset_vec (foldl add_rowset_entity ve rs) = rowset_vec ve @ rs
   \<and> version (foldl add_rowset_entity ve rs) = version ve
   \<and> version_hash (foldl add_rowset_entity ve rs) = version_hash ve
   \<and> rowset_vec (add_rowset_entity (add_rowset_entity (add_rowset_entity
        (VersionEntity_ctor (100, 110) vh) R1) R2) R3) = [R1, R2, R3]
   \<and> rowset_vec (add_rowset_entity (add_rowset_entity
        (VersionEntity_ctor (100, 110) vh) R1) R1) = [R1, R1]"
  by (simp add: rowset_vec_foldl version_foldl)
     (simp add: VersionEntity_ctor_def add_rowset_entity_def)

text \<open>
  C9: a \<open>RowSetEntity\<close> constructed with a null \<open>column_statistics\<close> has an empty
  \<open>key_ranges\<close>; constructed with a pointer to a vector of \<open>k\<close> key ranges it has
  that vector as \<open>key_ranges\<close>, the same length and the same elements in the same
  places, for two elements as for any number. The other fields are the arguments.
\<close>

theorem RowSetEntity_ctor_key_ranges:
  "key_ranges (RowSetEntity_ctor rid nseg nrows dsize isize emp None) = []
   \<and> key_ranges (RowSetEntity_ctor rid nseg nrows dsize isize emp (Some stats)) = stats
   \<and> length (key_ranges (RowSetEntity_ctor rid nseg nrows dsize isize emp (Some stats)))
       = length stats
   \<and> key_ranges (RowSetEntity_ctor rid nseg nrows dsize isize emp (Some [k1, k2]))
       = [k1, k2]
   \<and> rowset_id (RowSetEntity_ctor rid nseg nrows dsize isize emp cs) = rid
   \<and> num_segments (RowSetEntity_ctor rid nseg nrows dsize isize emp cs) = nseg
   \<and> num_rows (RowSetEntity_ctor rid nseg nrows dsize isize emp cs) = nrows
   \<and> data_size (RowSetEntity_ctor rid nseg nrows dsize isize emp cs) = dsize
   \<and> index_size (RowSetEntity_ctor rid nseg nrows dsize isize emp cs) = isize
   \<and> empty_flag (RowSetEntity_ctor rid nseg nrows dsize isize emp cs) = emp"
  by (cases cs) (simp_all add: RowSetEntity_ctor_def)

section \<open>Results on the periodic workers\<close>

lemma unat_usleep_arg: "unat (usleep_arg i) = unat i * 1000000 mod 2 ^ 32"
  by (simp add: usleep_arg_def unat_word_ariths)

lemma usleep_arg_short: 
  assumes "4295 \<le> unat i" shows "unat (usleep_arg i) < unat i * 1000000"
proof -
  have "unat (usleep_arg i) < 2 ^ 32" using unsigned_less [of "usleep_arg i"] by simp
  then show ?thesis using assms by simp
qed

lemma base_compaction_loop_replicate:
  "base_compaction_loop i n
     = concat (replicate n [ApplySystemCgroup, PerformBaseCompaction, USleep (usleep_arg i)])"
  by (induction n) simp_all

lemma cumulative_compaction_loop_replicate:
  "cumulative_compaction_loop i n
     = concat (replicate n [ApplySystemCgroup, PerformCumulativeCompaction, USleep (usleep_arg i)])"
  by (induction n) simp_all

lemma fd_cache_clean_loop_drop:
  "k \<le> n \<Longrightarrow> drop (2 * k) (fd_cache_clean_loop i n) = fd_cache_clean_loop i (n - k)"
proof (induction k arbitrary: n)
  case 0
  then show ?case by simp
next
  case (Suc k)
  then obtain m where "n = Suc m" by (cases n) simp_all
  then show ?case using Suc by simp
qed

lemma disk_stat_monitor_loop_drop:
  "k \<le> n \<Longrightarrow> drop (2 * k) (disk_stat_monitor_loop i n) = disk_stat_monitor_loop i (n - k)"
proof (induction k arbitrary: n)
  case 0
  then show ?case by simp
next
  case (Suc k)
  then obtain m where "n = Suc m" by (cases n) simp_all
  then show ?case using Suc by simp
qed

lemma unused_index_loop_drop:
  "k \<le> n \<Longrightarrow> drop (2 * k) (unused_index_loop i n) = unused_index_loop i (n - k)"
proof (induction k arbitrary: n)
  case 0
  then show ?case by simp
next
  case (Suc k)
  then obtain m where "n = Suc m" by (cases n) simp_all
  then show ?case using Suc by simp
qed

lemma drop_3_Suc: "drop (3 * Suc k) xs = drop (3 * k) (drop 3 xs)"
  by (simp add: add.commute)

lemma take_3_Cons: "take 3 (x # y # z # xs) = [x, y, z]"
  by (simp add: numeral_3_eq_3)

lemma base_compaction_loop_drop:
  "k \<le> n \<Longrightarrow> drop (3 * k) (base_compaction_loop i n) = base_compaction_loop i (n - k)"
proof (induction k arbitrary: n)
  case 0
  then show ?case by simp
next
  case (Suc k)
  then obtain m where n: "n = Suc m" by (cases n) simp_all
  have "drop (3 * Suc k) (base_compaction_loop i (Suc m))
      = drop (3 * k) (drop 3 (base_compaction_loop i (Suc m)))"
    by (rule drop_3_Suc)
  also have "drop 3 (base_compaction_loop i (Suc m)) = base_compaction_loop i m"
    by (simp add: numeral_3_eq_3)
  finally show ?case using Suc n by simp
qed

lemma cumulative_compaction_loop_drop:
  "k \<le> n \<Longrightarrow> drop (3 * k) (cumulative_compaction_loop i n) = cumulative_compaction_loop i (n - k)"
proof (induction k arbitrary: n)
  case 0
  then show ?case by simp
next
  case (Suc k)
  then obtain m where n: "n = Suc m" by (cases n) simp_all
  have "drop (3 * Suc k) (cumulative_compaction_loop i (Suc m))
      = drop (3 * k) (drop 3 (cumulative_compaction_loop i (Suc m)))"
    by (rule drop_3_Suc)
  also have "drop 3 (cumulative_compaction_loop i (Suc m)) = cumulative_compaction_loop i m"
    by (simp add: numeral_3_eq_3)
  finally show ?case using Suc n by simp
qed

lemma interval_zero_defaults:
  "fd_cache_clean_interval 0 = 3600" "disk_stat_monitor_interval 0 = 1"
  "unused_index_monitor_interval 0 = 1" "base_compaction_interval 0 = 1"
  "cumulative_compaction_interval 0 = 1"
  by (simp_all add: fd_cache_clean_interval_def disk_stat_monitor_interval_def
      unused_index_monitor_interval_def base_compaction_interval_def
      cumulative_compaction_interval_def)

lemma interval_nonzero_kept:
  assumes "cfg \<noteq> 0"
  shows "fd_cache_clean_interval cfg = cfg" "disk_stat_monitor_interval cfg = cfg"
    "unused_index_monitor_interval cfg = cfg" "base_compaction_interval cfg = cfg"
    "cumulative_compaction_interval cfg = cfg"
  using assms
  by (simp_all add: fd_cache_clean_interval_def disk_stat_monitor_interval_def
      unused_index_monitor_interval_def base_compaction_interval_def
      cumulative_compaction_interval_def)

text \<open>
  C4: a configured interval that is not positive is replaced by the worker's safe
  default, and a positive one is kept. The code does this for the value zero and for
  the positive values, and misses the negative ones: \<open>interval\<close> is a \<open>uint32_t\<close>, so
  the test \<open>interval <= 0\<close> holds for zero only, and a configured \<open>-1\<close> is kept as
  \<open>4294967295\<close> by each of the five workers.
\<close>

theorem negative_interval_config_kept:
  "sint (- 1 :: int32_t) = - 1
   \<and> fd_cache_clean_interval (- 1) = 4294967295
   \<and> disk_stat_monitor_interval (- 1) = 4294967295
   \<and> unused_index_monitor_interval (- 1) = 4294967295
   \<and> base_compaction_interval (- 1) = 4294967295
   \<and> cumulative_compaction_interval (- 1) = 4294967295
   \<and> fd_cache_clean_interval (- 1) \<noteq> 3600
   \<and> disk_stat_monitor_interval (- 1) \<noteq> 1"
  by (simp add: fd_cache_clean_interval_def disk_stat_monitor_interval_def
      unused_index_monitor_interval_def base_compaction_interval_def
      cumulative_compaction_interval_def)

text \<open>
  C6, as the code has it: in every iteration of the fd-cache cleanup worker the sleep
  for the current interval comes before the action. In every iteration of the
  disk-stat monitor, of the unused-index cleanup and of the two compaction workers the
  action is invoked first and the sleep for the current interval follows it. Iteration
  \<open>k\<close> of a trace is its two events from position \<open>2 * k\<close>; for the compaction
  workers, which first join the system cgroup, it is the three events from position
  \<open>3 * k\<close>.
\<close>

theorem worker_iteration_order:
  assumes "k < n"
  shows "take 2 (drop (2 * k) (fd_cache_clean_callback c1 n))
           = [Sleep (fd_cache_clean_interval c1), StartCleanFdCache]
    \<and> take 2 (drop (2 * k) (disk_stat_monitor_thread_callback c2 n))
           = [StartDiskStatMonitor, Sleep (disk_stat_monitor_interval c2)]
    \<and> take 2 (drop (2 * k) (unused_index_thread_callback c3 n))
           = [StartDeleteUnusedIndex, Sleep (unused_index_monitor_interval c3)]
    \<and> take 3 (drop (3 * k) (base_compaction_thread_callback c4 n))
           = [ApplySystemCgroup, PerformBaseCompaction,
              USleep (usleep_arg (base_compaction_interval c4))]
    \<and> take 3 (drop (3 * k) (cumulative_compaction_thread_callback c5 n))
           = [ApplySystemCgroup, PerformCumulativeCompaction,
              USleep (usleep_arg (cumulative_compaction_interval c5))]
    \<and> sleep_before_action (take 2 (drop (2 * k) (fd_cache_clean_callback c1 n)))
    \<and> \<not> sleep_before_action (take 2 (drop (2 * k) (disk_stat_monitor_thread_callback c2 n)))
    \<and> \<not> sleep_before_action (take 2 (drop (2 * k) (unused_index_thread_callback c3 n)))
    \<and> \<not> sleep_before_action (take 3 (drop (3 * k) (base_compaction_thread_callback c4 n)))
    \<and> \<not> sleep_before_action
          (take 3 (drop (3 * k) (cumulative_compaction_thread_callback c5 n)))"
proof -
  obtain m where m: "n - k = Suc m" using assms by (cases "n - k") simp_all
  have kn: "k \<le> n" using assms by simp
  have fd: "take 2 (drop (2 * k) (fd_cache_clean_callback c1 n))
           = [Sleep (fd_cache_clean_interval c1), StartCleanFdCache]"
    unfolding fd_cache_clean_callback_def
    by (simp add: fd_cache_clean_loop_drop [OF kn] m)
  have ds: "take 2 (drop (2 * k) (disk_stat_monitor_thread_callback c2 n))
           = [StartDiskStatMonitor, Sleep (disk_stat_monitor_interval c2)]"
    unfolding disk_stat_monitor_thread_callback_def
    by (simp add: disk_stat_monitor_loop_drop [OF kn] m)
  have ui: "take 2 (drop (2 * k) (unused_index_thread_callback c3 n))
           = [StartDeleteUnusedIndex, Sleep (unused_index_monitor_interval c3)]"
    unfolding unused_index_thread_callback_def
    by (simp add: unused_index_loop_drop [OF kn] m)
  have bc: "take 3 (drop (3 * k) (base_compaction_thread_callback c4 n))
           = [ApplySystemCgroup, PerformBaseCompaction,
              USleep (usleep_arg (base_compaction_interval c4))]"
    unfolding base_compaction_thread_callback_def base_compaction_loop_drop [OF kn] m
      base_compaction_loop.simps
    by (rule take_3_Cons)
  have cc: "take 3 (drop (3 * k) (cumulative_compaction_thread_callback c5 n))
           = [ApplySystemCgroup, PerformCumulativeCompaction,
              USleep (usleep_arg (cumulative_compaction_interval c5))]"
    unfolding cumulative_compaction_thread_callback_def
      cumulative_compaction_loop_drop [OF kn] m cumulative_compaction_loop.simps
    by (rule take_3_Cons)
  show ?thesis
    unfolding fd ds ui bc cc by (simp add: sleep_before_action_def)
qed

theorem worker_iteration_order_witness:
  "(1::nat) < 2
   \<and> take 2 (drop (2 * 1) (fd_cache_clean_callback 0 2)) = [Sleep 3600, StartCleanFdCache]
   \<and> take 2 (drop (2 * 1) (disk_stat_monitor_thread_callback 5 2))
       = [StartDiskStatMonitor, Sleep 5]
   \<and> take 2 (drop (2 * 1) (unused_index_thread_callback 5 2))
       = [StartDeleteUnusedIndex, Sleep 5]
   \<and> take 3 (drop (3 * 1) (base_compaction_thread_callback 5 2))
       = [ApplySystemCgroup, PerformBaseCompaction, USleep 5000000]
   \<and> take 3 (drop (3 * 1) (cumulative_compaction_thread_callback 5 2))
       = [ApplySystemCgroup, PerformCumulativeCompaction, USleep 5000000]"
  using worker_iteration_order [of 1 2 0 5 5 5 5]
  by (simp add: fd_cache_clean_interval_def disk_stat_monitor_interval_def
      unused_index_monitor_interval_def base_compaction_interval_def
      cumulative_compaction_interval_def usleep_arg_def)

text \<open>
  C6, as it is stated, fails on the disk-stat monitor: its first iteration invokes
  \<open>start_disk_stat_monitor\<close> and sleeps afterwards.
\<close>

theorem disk_stat_monitor_acts_before_sleep:
  "(0::nat) < 1
   \<and> disk_stat_monitor_thread_callback 1 1 = [StartDiskStatMonitor, Sleep 1]
   \<and> \<not> sleep_before_action (drop (2 * 0) (disk_stat_monitor_thread_callback 1 1))"
  by (simp add: disk_stat_monitor_thread_callback_def disk_stat_monitor_interval_def
       sleep_before_action_def)

text \<open>
  C10: with the effective interval \<open>i\<close>, every iteration of a base-compaction or
  cumulative-compaction worker hands \<open>usleep\<close> the 32-bit product \<open>i * 1000000\<close>,
  which is \<open>(i * 1000000) mod 2^32\<close> microseconds. For \<open>i \<ge> 4295\<close> this is less than
  \<open>i * 1000000\<close> microseconds, so the sleep asked for is shorter than \<open>i\<close> seconds.
\<close>

theorem compaction_usleep_wraps:
  "base_compaction_thread_callback cfg n
     = concat (replicate n [ApplySystemCgroup, PerformBaseCompaction,
         USleep (usleep_arg (base_compaction_interval cfg))])
   \<and> cumulative_compaction_thread_callback cfg n
     = concat (replicate n [ApplySystemCgroup, PerformCumulativeCompaction,
         USleep (usleep_arg (cumulative_compaction_interval cfg))])
   \<and> unat (usleep_arg i) = unat i * 1000000 mod 2 ^ 32
   \<and> (4295 \<le> unat i \<longrightarrow> unat (usleep_arg i) < unat i * 1000000)"
  using unat_usleep_arg [of i] usleep_arg_short [of i]
  by (simp only: base_compaction_thread_callback_def
      cumulative_compaction_thread_callback_def base_compaction_loop_replicate
      cumulative_compaction_loop_replicate) simp

theorem compaction_usleep_wraps_witness:
  "4295 \<le> unat (4295 :: uint32_t)
   \<and> unat (usleep_arg 4295) = 32704
   \<and> unat (usleep_arg 4295) < unat (4295 :: uint32_t) * 1000000
   \<and> base_compaction_thread_callback 4295 1
       = [ApplySystemCgroup, PerformBaseCompaction, USleep 32704]"
  using compaction_usleep_wraps [of 4295 1 4295]
  by (simp add: base_compaction_interval_def usleep_arg_def)

section \<open>Results on the garbage sweeper\<close>

lemma garbage_sweep_validate_invariant:
  "garbage_sweep_validate cmax cmin = (mx, mn) \<Longrightarrow> 0 < mn \<and> mn \<le> mx"
  by (auto simp: garbage_sweep_validate_def Let_def split: if_splits)

lemma garbage_sweep_validate_legal:
  "cmin \<le> cmax \<Longrightarrow> 0 < cmin \<Longrightarrow> garbage_sweep_validate cmax cmin = (cmax, cmin)"
  by (simp add: garbage_sweep_validate_def)

lemma garbage_sweep_validate_illegal:
  "\<not> (cmin \<le> cmax \<and> 0 < cmin) \<Longrightarrow>
     garbage_sweep_validate cmax cmin = (max cmax 1, 1)"
  by (auto simp: garbage_sweep_validate_def Let_def max_def)

text \<open>
  C3: a configured pair with \<open>min \<le> 0\<close> or \<open>max < min\<close> is adjusted to \<open>min' = 1\<close> and
  \<open>max' = max(max, 1)\<close>, and a pair with \<open>max \<ge> min > 0\<close> is left as it is. The code
  tests the pair after it has been stored in \<open>uint32_t\<close>: the configured pair
  \<open>min = -5, max = -1\<close> passes the test as \<open>4294967291\<close> and \<open>4294967295\<close> and is kept,
  and so is \<open>min = 5, max = -1\<close>, whose \<open>max\<close> is below its \<open>min\<close>.
\<close>

theorem garbage_sweep_validate_negative_config:
  "sint (- 5 :: int32_t) = - 5 \<and> sint (- 1 :: int32_t) = - 1
   \<and> garbage_sweep_validate (- 1) (- 5) = (4294967295, 4294967291)
   \<and> garbage_sweep_validate (- 1) 5 = (4294967295, 5)"
proof -
  have "sint (- 5 :: int32_t) = - 5" "sint (- 1 :: int32_t) = - 1" by simp_all
  moreover have "garbage_sweep_validate (- 1) (- 5) = (4294967295, 4294967291)" by code_simp
  moreover have "garbage_sweep_validate (- 1) 5 = (4294967295, 5)" by code_simp
  ultimately show ?thesis by (intro conjI)
qed

subsection \<open>The damping ratio at full usage\<close>





subsection \<open>The first sweep interval\<close>



end
